theory Spec2Isabelle
  imports Complex_Main
begin

section \<open>Python values\<close>

text \<open>
  The two scripts \<^verbatim>\<open>align.py\<close> and \<^verbatim>\<open>whisper_transcribe.py\<close> handle duck-typed values:
  the results of the wrapped libraries and the payloads given to \<^verbatim>\<open>json.dumps\<close>.
  A dict is an association list in insertion order (Python dicts keep it, and
  \<^verbatim>\<open>json.dumps\<close> writes the keys in that order); a lookup takes the first entry of a key.
  A \<^verbatim>\<open>str\<close> is a \<^typ>\<open>string\<close>, each character read as one code point below 256.
  A finite \<^verbatim>\<open>float\<close> is the rational number it denotes; NaN, the infinities and the sign
  of zero are outside the model.
\<close>

datatype pyval =
    PNone
  | PBool bool
  | PInt int
  | PFloat rat
  | PStr string
  | PList "pyval list"
  | PDict "(string \<times> pyval) list"

text \<open>
  An exception carries the name of its class (\<^verbatim>\<open>type(e).__name__\<close>), its message
  (\<^verbatim>\<open>str(e)\<close>) and which of the classes named by the handlers of the scripts it derives
  from: \<^verbatim>\<open>ImportError\<close> (which derives from \<^verbatim>\<open>Exception\<close>), \<^verbatim>\<open>Exception\<close>, or
  \<^verbatim>\<open>BaseException\<close> only (\<^verbatim>\<open>KeyboardInterrupt\<close>, \<^verbatim>\<open>SystemExit\<close>).
\<close>

datatype exc_class = ImportErrorClass | ExceptionClass | BaseExceptionClass

datatype exc = Exc (exc_class: exc_class) (exc_type: string) (exc_str: string)

definition is_ImportError :: "exc \<Rightarrow> bool" where
  "is_ImportError e = (exc_class e = ImportErrorClass)"

definition is_Exception :: "exc \<Rightarrow> bool" where
  "is_Exception e = (exc_class e = ImportErrorClass \<or> exc_class e = ExceptionClass)"

fun type_name :: "pyval \<Rightarrow> string" where
  "type_name PNone = ''NoneType''"
| "type_name (PBool _) = ''bool''"
| "type_name (PInt _) = ''int''"
| "type_name (PFloat _) = ''float''"
| "type_name (PStr _) = ''str''"
| "type_name (PList _) = ''list''"
| "type_name (PDict _) = ''dict''"

definition AttributeError :: "pyval \<Rightarrow> string \<Rightarrow> exc" where
  "AttributeError v a =
     Exc ExceptionClass ''AttributeError''
       ([CHR 0x27] @ type_name v @ [CHR 0x27] @ '' object has no attribute '' @
        [CHR 0x27] @ a @ [CHR 0x27])"

definition TypeError :: "string \<Rightarrow> exc" where
  "TypeError m = Exc ExceptionClass ''TypeError'' m"

subsection \<open>\<^verbatim>\<open>d.get(key, default)\<close>, \<^verbatim>\<open>key in d\<close> and iteration\<close>

text \<open>Of the values of the model only a dict has a method \<^verbatim>\<open>get\<close>.\<close>

fun py_get :: "pyval \<Rightarrow> string \<Rightarrow> pyval \<Rightarrow> exc + pyval" where
  "py_get (PDict kvs) k d = Inr (case map_of kvs k of None \<Rightarrow> d | Some v \<Rightarrow> v)"
| "py_get v k d = Inl (AttributeError v ''get'')"

text \<open>
  What a \<^verbatim>\<open>for\<close> loop runs over: the items of a list, the keys of a dict, the
  one-character strings of a string; the other values are not iterable.
\<close>

fun py_iter :: "pyval \<Rightarrow> exc + pyval list" where
  "py_iter (PList xs) = Inr xs"
| "py_iter (PDict kvs) = Inr (map (\<lambda>kv. PStr (fst kv)) kvs)"
| "py_iter (PStr s) = Inr (map (\<lambda>c. PStr [c]) s)"
| "py_iter v = Inl (TypeError ([CHR 0x27] @ type_name v @ [CHR 0x27] @ '' object is not iterable''))"

subsection \<open>Floats: \<^verbatim>\<open>int / int\<close> and \<^verbatim>\<open>round(x, 3)\<close>\<close>

text \<open>Rounding to the nearest integer, ties to the even one.\<close>

definition round_half_even :: "rat \<Rightarrow> int" where
  "round_half_even x =
     (let f = \<lfloor>x\<rfloor>; d = x - of_int f
      in if d < 1 / 2 then f else if 1 / 2 < d then f + 1 else if even f then f else f + 1)"

fun bit_length :: "nat \<Rightarrow> nat" where
  "bit_length n = (if n = 0 then 0 else Suc (bit_length (n div 2)))"

declare bit_length.simps [simp del]

text \<open>For \<open>0 < x\<close>, the exponent \<open>e\<close> with \<open>2 ^ e \<le> x < 2 ^ (e + 1)\<close>.\<close>

definition ilog2 :: "rat \<Rightarrow> int" where
  "ilog2 x =
     (if 1 \<le> x then int (bit_length (nat \<lfloor>x\<rfloor>)) - 1
      else - int (bit_length (nat (\<lceil>1 / x\<rceil> - 1))))"

text \<open>
  The IEEE 754 double nearest to a rational (ties to even): 53 significant bits, the
  exponent not below that of the subnormal numbers. Magnitudes of \<open>2 ^ 1024\<close> and more,
  where Python overflows, are not reached by the scripts.
\<close>

definition to_double :: "rat \<Rightarrow> rat" where
  "to_double x =
     (if x = 0 then 0
      else let e = max (ilog2 \<bar>x\<bar>) (- 1022); u = 2 powi (e - 52)
           in of_int (round_half_even (x / u)) * u)"

text \<open>\<^verbatim>\<open>a / b\<close> on two ints with \<^verbatim>\<open>b\<close> not zero: the correctly rounded quotient.\<close>

definition truediv :: "int \<Rightarrow> int \<Rightarrow> rat" where
  "truediv a b = to_double (of_int a / of_int b)"

text \<open>
  \<^verbatim>\<open>round(x, 3)\<close> on a float: the decimal with 3 digits after the point nearest to the
  exact value of \<^verbatim>\<open>x\<close> (ties to even), converted back to the nearest double.
\<close>

definition round3 :: "rat \<Rightarrow> rat" where
  "round3 x = to_double (of_int (round_half_even (x * 1000)) / 1000)"

text \<open>
  \<^verbatim>\<open>round(v, 3)\<close> on any value: an int is returned as it is, a bool as the int it
  equals, and the values without \<^verbatim>\<open>__round__\<close> raise \<^verbatim>\<open>TypeError\<close>.
\<close>

fun py_round3 :: "pyval \<Rightarrow> exc + pyval" where
  "py_round3 (PFloat x) = Inr (PFloat (round3 x))"
| "py_round3 (PInt n) = Inr (PInt n)"
| "py_round3 (PBool b) = Inr (PInt (if b then 1 else 0))"
| "py_round3 v = Inl (TypeError (''type '' @ type_name v @ '' doesn'' @ [CHR 0x27] @ ''t define __round__ method''))"

subsection \<open>\<^verbatim>\<open>str.strip()\<close>\<close>

text \<open>The code points below 256 for which \<^verbatim>\<open>str.isspace\<close> holds.\<close>

definition is_space :: "char \<Rightarrow> bool" where
  "is_space c =
     (let n = (of_char c :: nat)
      in (9 \<le> n \<and> n \<le> 13) \<or> (28 \<le> n \<and> n \<le> 32) \<or> n = 133 \<or> n = 160)"

definition py_strip :: "string \<Rightarrow> string" where
  "py_strip s = rev (dropWhile is_space (rev (dropWhile is_space s)))"

section \<open>What a run leaves behind\<close>

text \<open>
  A run of a script ends by \<^verbatim>\<open>sys.exit(n)\<close>, by reaching the end of \<^verbatim>\<open>main\<close> (exit
  code 0), or by an exception that no handler catches (the interpreter then prints a
  traceback, which is not a JSON object, and ends the process itself).
  \<open>stdout\<close> and \<open>stderr\<close> are the values given to \<^verbatim>\<open>print(json.dumps(...))\<close> on each
  stream, in order; printing is taken to succeed. \<open>calls\<close> are the imports and library
  calls the run has reached, in order, each with the arguments the script passes.
\<close>

datatype ending = Exit int | Uncaught exc

record 'c outcome =
  stdout :: "pyval list"
  stderr :: "pyval list"
  calls :: "'c list"
  ending :: ending

definition error_exit :: "pyval \<Rightarrow> 'c list \<Rightarrow> 'c outcome" where
  "error_exit obj cs = \<lparr>stdout = [], stderr = [obj], calls = cs, ending = Exit 1\<rparr>"

definition crash :: "exc \<Rightarrow> 'c list \<Rightarrow> 'c outcome" where
  "crash e cs = \<lparr>stdout = [], stderr = [], calls = cs, ending = Uncaught e\<rparr>"

section \<open>The alignment tool, \<^verbatim>\<open>align.py\<close>\<close>

text \<open>The parsed command line (\<^verbatim>\<open>parser.parse_args()\<close>).\<close>

record align_args =
  audio_path :: string
  text_path :: string
  language :: string
  model :: string
  device :: string
  compute_type :: string

type_synonym audio = "rat list"

text \<open>
  The world of one run: the file system, the two imports, and WhisperX and Torch as
  functions of the arguments they are called with. Each of them either returns or
  raises; \<^verbatim>\<open>os.path.exists\<close> does not raise. \<open>'m\<close> is the alignment model, which the
  script only hands on.
\<close>

record 'm align_env =
  path_exists :: "string \<Rightarrow> bool"
  read_text :: "string \<Rightarrow> exc + string"
  import_whisperx :: "exc option"
  import_torch :: "exc option"
  cuda_is_available :: "exc + bool"
  load_align_model :: "string \<Rightarrow> string \<Rightarrow> exc + ('m \<times> pyval)"
  load_audio :: "string \<Rightarrow> exc + audio"
  align :: "pyval \<Rightarrow> 'm \<Rightarrow> pyval \<Rightarrow> audio \<Rightarrow> string \<Rightarrow> bool \<Rightarrow> exc + pyval"

datatype 'm align_call =
    Import string
  | CudaIsAvailable
  | LoadAlignModel string string
  | LoadAudio string
  | Align pyval 'm pyval audio string bool

subsection \<open>Extracting the word-level data (lines 96 to 108)\<close>

text \<open>The body of the inner loop: the record built from one \<^verbatim>\<open>word_data\<close>.\<close>

definition align_word :: "pyval \<Rightarrow> exc + pyval" where
  "align_word word_data =
     (case py_get word_data ''word'' (PStr []) of Inl e \<Rightarrow> Inl e | Inr w \<Rightarrow>
     (case py_get word_data ''start'' (PInt 0) of Inl e \<Rightarrow> Inl e | Inr s0 \<Rightarrow>
     (case py_round3 s0 of Inl e \<Rightarrow> Inl e | Inr s \<Rightarrow>
     (case py_get word_data ''end'' (PInt 0) of Inl e \<Rightarrow> Inl e | Inr e0 \<Rightarrow>
     (case py_round3 e0 of Inl e \<Rightarrow> Inl e | Inr en \<Rightarrow>
     (let word = [(''word'', w), (''start'', s), (''end'', en)]
      in (case word_data of
            PDict kvs \<Rightarrow>
              (case map_of kvs ''score'' of
                 None \<Rightarrow> Inr (PDict word)
               | Some sc \<Rightarrow>
                   (case py_round3 sc of
                      Inl e \<Rightarrow> Inl e
                    | Inr c \<Rightarrow> Inr (PDict (word @ [(''confidence'', c)]))))
          | _ \<Rightarrow> Inr (PDict word))))))))"

text \<open>
  The two nested loops, which \<^verbatim>\<open>whisper_transcribe.py\<close> has too (lines 44 to 52):
  the scripts differ in the record \<open>f\<close> built from one word only. The inner loop runs
  over the words of one segment and appends to \<^verbatim>\<open>words\<close>.
\<close>

fun words_loop :: "(pyval \<Rightarrow> exc + pyval) \<Rightarrow> pyval list \<Rightarrow> pyval list \<Rightarrow> exc + pyval list" where
  "words_loop f [] words = Inr words"
| "words_loop f (word_data # rest) words =
     (case f word_data of
        Inl e \<Rightarrow> Inl e
      | Inr word \<Rightarrow> words_loop f rest (words @ [word]))"

text \<open>The outer loop, over the segments.\<close>

fun segments_loop :: "(pyval \<Rightarrow> exc + pyval) \<Rightarrow> pyval list \<Rightarrow> pyval list \<Rightarrow> exc + pyval list" where
  "segments_loop f [] words = Inr words"
| "segments_loop f (segment # rest) words =
     (case py_get segment ''words'' (PList []) of Inl e \<Rightarrow> Inl e | Inr ws \<Rightarrow>
     (case py_iter ws of Inl e \<Rightarrow> Inl e | Inr wl \<Rightarrow>
     (case words_loop f wl words of Inl e \<Rightarrow> Inl e | Inr words' \<Rightarrow>
        segments_loop f rest words')))"

definition extract_words :: "(pyval \<Rightarrow> exc + pyval) \<Rightarrow> pyval \<Rightarrow> exc + pyval list" where
  "extract_words f result =
     (case py_get result ''segments'' (PList []) of Inl e \<Rightarrow> Inl e | Inr segs \<Rightarrow>
     (case py_iter segs of Inl e \<Rightarrow> Inl e | Inr sl \<Rightarrow>
        segments_loop f sl []))"

subsection \<open>Device and compute type (lines 55 to 64)\<close>

definition resolve_device :: "'m align_env \<Rightarrow> string \<Rightarrow> 'm align_call list \<times> (exc + string)" where
  "resolve_device env d =
     (if d = ''auto''
      then ([CudaIsAvailable],
            case cuda_is_available env of
              Inl e \<Rightarrow> Inl e
            | Inr b \<Rightarrow> Inr (if b then ''cuda'' else ''cpu''))
      else ([], Inr d))"

definition resolve_compute_type :: "string \<Rightarrow> string \<Rightarrow> string" where
  "resolve_compute_type device' requested =
     (if device' = ''cpu'' \<and> requested = ''float16'' then ''int8'' else requested)"

subsection \<open>The guarded block (lines 66 to 119)\<close>

text \<open>The single segment built from the transcript and the loaded audio.\<close>

definition make_segments :: "string \<Rightarrow> audio \<Rightarrow> pyval" where
  "make_segments transcript au =
     PList [PDict [(''text'', PStr transcript),
                   (''start'', PFloat 0),
                   (''end'', PFloat (truediv (int (length au)) 16000))]]"

definition align_output :: "align_args \<Rightarrow> audio \<Rightarrow> pyval list \<Rightarrow> pyval" where
  "align_output args au words =
     PDict [(''success'', PBool True),
            (''language'', PStr (language args)),
            (''duration'', PFloat (round3 (truediv (int (length au)) 16000))),
            (''word_count'', PInt (int (length words))),
            (''words'', PList words)]"

text \<open>
  The body of the \<^verbatim>\<open>try\<close>: the calls it reaches, and either the exception that leaves
  it or the object it prints. The compute type is not among its inputs.
\<close>

definition align_try ::
  "'m align_env \<Rightarrow> align_args \<Rightarrow> string \<Rightarrow> string \<Rightarrow> 'm align_call list \<times> (exc + pyval)" where
  "align_try env args transcript device' =
     (let c1 = [LoadAlignModel (language args) device']
      in (case load_align_model env (language args) device' of
            Inl e \<Rightarrow> (c1, Inl e)
          | Inr (align_model, align_metadata) \<Rightarrow>
     (let c2 = c1 @ [LoadAudio (audio_path args)]
      in (case load_audio env (audio_path args) of
            Inl e \<Rightarrow> (c2, Inl e)
          | Inr au \<Rightarrow>
     (let segments = make_segments transcript au;
          c3 = c2 @ [Align segments align_model align_metadata au device' False]
      in (case align env segments align_model align_metadata au device' False of
            Inl e \<Rightarrow> (c3, Inl e)
          | Inr result \<Rightarrow>
     (case extract_words align_word result of
            Inl e \<Rightarrow> (c3, Inl e)
          | Inr words \<Rightarrow> (c3, Inr (align_output args au words)))))))))"

subsection \<open>\<^verbatim>\<open>main\<close>\<close>

text \<open>The two imports of lines 46 to 53; their handler is in \<open>align_main\<close>.\<close>

definition align_imports :: "'m align_env \<Rightarrow> 'm align_call list \<times> exc option" where
  "align_imports env =
     (case import_whisperx env of
        Some e \<Rightarrow> ([Import ''whisperx''], Some e)
      | None \<Rightarrow> ([Import ''whisperx'', Import ''torch''], import_torch env))"

definition align_main :: "'m align_env \<Rightarrow> align_args \<Rightarrow> 'm align_call outcome" where
  "align_main env args =
     (if \<not> path_exists env (audio_path args)
      then error_exit (PDict [(''error'', PStr (''Audio file not found: '' @ audio_path args))]) []
      else if \<not> path_exists env (text_path args)
      then error_exit (PDict [(''error'', PStr (''Text file not found: '' @ text_path args))]) []
      else (case read_text env (text_path args) of
        Inl e \<Rightarrow> crash e []
      | Inr content \<Rightarrow>
     (let transcript = py_strip content
      in if transcript = []
         then error_exit (PDict [(''error'', PStr ''Transcript is empty'')]) []
         else (case align_imports env of
           (ci, Some e) \<Rightarrow>
             (if is_ImportError e
              then error_exit
                     (PDict [(''error'', PStr ((''Missing dependency: '' @ exc_str e) @
                                 ''. Install with: pip install whisperx torch''))]) ci
              else crash e ci)
         | (ci, None) \<Rightarrow>
     (case resolve_device env (device args) of
           (cd, Inl e) \<Rightarrow> crash e (ci @ cd)
         | (cd, Inr device') \<Rightarrow>
     (let compute_type' = resolve_compute_type device' (compute_type args)
      in (case align_try env args transcript device' of
           (ct, Inr output) \<Rightarrow>
             \<lparr>stdout = [output], stderr = [], calls = ci @ cd @ ct, ending = Exit 0\<rparr>
         | (ct, Inl e) \<Rightarrow>
             (if is_Exception e
              then error_exit
                     (PDict [(''error'', PStr (exc_str e)), (''type'', PStr (exc_type e))])
                     (ci @ cd @ ct)
              else crash e (ci @ cd @ ct)))))))))"

section \<open>The transcription tool, \<^verbatim>\<open>whisper_transcribe.py\<close>\<close>

record whisper_args =
  w_audio :: string
  w_model :: string
  w_language :: string
  w_device :: string
  w_output :: string

text \<open>
  The world of one run: the import, and Whisper as functions of the arguments it is
  called with. \<open>'m\<close> is the loaded model; the two flags of \<open>transcribe\<close> are
  \<^verbatim>\<open>word_timestamps\<close> and \<^verbatim>\<open>verbose\<close>.
\<close>

record 'm whisper_env =
  import_whisper :: "exc option"
  load_model :: "string \<Rightarrow> string \<Rightarrow> exc + 'm"
  transcribe :: "'m \<Rightarrow> string \<Rightarrow> string \<Rightarrow> bool \<Rightarrow> bool \<Rightarrow> exc + pyval"

datatype 'm whisper_call =
    ImportWhisper
  | LoadModel string string
  | Transcribe 'm string string bool bool

text \<open>The record appended for one \<^verbatim>\<open>word_info\<close> (lines 47 to 52).\<close>

definition whisper_word :: "pyval \<Rightarrow> exc + pyval" where
  "whisper_word word_info =
     (case py_get word_info ''word'' (PStr []) of Inl e \<Rightarrow> Inl e | Inr w \<Rightarrow>
     (case py_get word_info ''start'' (PInt 0) of Inl e \<Rightarrow> Inl e | Inr s \<Rightarrow>
     (case py_get word_info ''end'' (PInt 0) of Inl e \<Rightarrow> Inl e | Inr en \<Rightarrow>
     (case py_get word_info ''probability'' PNone of Inl e \<Rightarrow> Inl e | Inr pr \<Rightarrow>
        Inr (PDict [(''word'', w), (''start'', s), (''end'', en), (''probability'', pr)])))))"

text \<open>The output object (lines 55 to 61).\<close>

definition whisper_output :: "whisper_args \<Rightarrow> pyval \<Rightarrow> pyval list \<Rightarrow> exc + pyval" where
  "whisper_output args result words =
     (case py_get result ''text'' (PStr []) of Inl e \<Rightarrow> Inl e | Inr t \<Rightarrow>
     (case py_get result ''language'' (PStr (w_language args)) of Inl e \<Rightarrow> Inl e | Inr l \<Rightarrow>
     (case py_get result ''duration'' PNone of Inl e \<Rightarrow> Inl e | Inr d \<Rightarrow>
     (case py_get result ''segments'' (PList []) of Inl e \<Rightarrow> Inl e | Inr segs \<Rightarrow>
        Inr (PDict [(''text'', t), (''language'', l), (''duration'', d),
                    (''segments'', segs), (''words'', PList words)])))))"

text \<open>The body of the second \<^verbatim>\<open>try\<close> (lines 31 to 63).\<close>

definition whisper_try ::
  "'m whisper_env \<Rightarrow> whisper_args \<Rightarrow> 'm whisper_call list \<times> (exc + pyval)" where
  "whisper_try env args =
     (let c1 = [LoadModel (w_model args) (w_device args)]
      in (case load_model env (w_model args) (w_device args) of
            Inl e \<Rightarrow> (c1, Inl e)
          | Inr mdl \<Rightarrow>
     (let c2 = c1 @ [Transcribe mdl (w_audio args) (w_language args) True False]
      in (case transcribe env mdl (w_audio args) (w_language args) True False of
            Inl e \<Rightarrow> (c2, Inl e)
          | Inr result \<Rightarrow>
     (case extract_words whisper_word result of
            Inl e \<Rightarrow> (c2, Inl e)
          | Inr words \<Rightarrow>
     (case whisper_output args result words of
            Inl e \<Rightarrow> (c2, Inl e)
          | Inr output \<Rightarrow> (c2, Inr output)))))))"

text \<open>\<^verbatim>\<open>main\<close>: both handlers print to standard output.\<close>

definition stdout_error_exit :: "pyval \<Rightarrow> 'c list \<Rightarrow> 'c outcome" where
  "stdout_error_exit obj cs = \<lparr>stdout = [obj], stderr = [], calls = cs, ending = Exit 1\<rparr>"

definition whisper_main :: "'m whisper_env \<Rightarrow> whisper_args \<Rightarrow> 'm whisper_call outcome" where
  "whisper_main env args =
     (case import_whisper env of
        Some e \<Rightarrow>
          (if is_ImportError e
           then stdout_error_exit
                  (PDict [(''error'',
                           PStr ''openai-whisper not installed. Run: pip install openai-whisper'')])
                  [ImportWhisper]
           else crash e [ImportWhisper])
      | None \<Rightarrow>
     (case whisper_try env args of
        (ct, Inr output) \<Rightarrow>
          \<lparr>stdout = [output], stderr = [], calls = ImportWhisper # ct, ending = Exit 0\<rparr>
      | (ct, Inl e) \<Rightarrow>
          (if is_Exception e
           then stdout_error_exit (PDict [(''error'', PStr (exc_str e))]) (ImportWhisper # ct)
           else crash e (ImportWhisper # ct))))"

section \<open>Properties of the payloads\<close>

text \<open>An error object is a JSON object with a key \<^verbatim>\<open>error\<close>.\<close>

definition is_error_object :: "pyval \<Rightarrow> bool" where
  "is_error_object v = (case v of PDict kvs \<Rightarrow> ''error'' \<in> set (map fst kvs) | _ \<Rightarrow> False)"

text \<open>The success object of each tool, by its keys.\<close>

definition is_align_success :: "pyval \<Rightarrow> bool" where
  "is_align_success v =
     (case v of
        PDict kvs \<Rightarrow>
          map fst kvs = [''success'', ''language'', ''duration'', ''word_count'', ''words''] \<and>
          map_of kvs ''success'' = Some (PBool True)
      | _ \<Rightarrow> False)"

definition is_whisper_success :: "pyval \<Rightarrow> bool" where
  "is_whisper_success v =
     (case v of
        PDict kvs \<Rightarrow> map fst kvs = [''text'', ''language'', ''duration'', ''segments'', ''words'']
      | _ \<Rightarrow> False)"

text \<open>
  The contract of the result payload: one object on the two streams together, which is
  the success object with exit code 0 or an error object with exit code 1.
\<close>

definition payload_contract :: "(pyval \<Rightarrow> bool) \<Rightarrow> 'c outcome \<Rightarrow> bool" where
  "payload_contract is_success r =
     (case stdout r @ stderr r of
        [p] \<Rightarrow> (is_success p \<and> ending r = Exit 0) \<or> (is_error_object p \<and> ending r = Exit 1)
      | _ \<Rightarrow> False)"

definition exited :: "'c outcome \<Rightarrow> bool" where
  "exited r = (case ending r of Exit _ \<Rightarrow> True | Uncaught _ \<Rightarrow> False)"

section \<open>Concrete runs\<close>

definition demo_args :: align_args where
  "demo_args =
     \<lparr>audio_path = ''a.wav'', text_path = ''t.txt'', language = ''yi'',
      model = ''large-v2'', device = ''cpu'', compute_type = ''float16''\<rparr>"

text \<open>An alignment result with one segment of two words, the second without timing.\<close>

definition demo_result :: pyval where
  "demo_result =
     PDict [(''segments'',
       PList [PDict [(''words'',
         PList [PDict [(''word'', PStr ''hello''), (''start'', PFloat (1234 / 10000)),
                       (''end'', PFloat (1 / 2)), (''score'', PFloat (98765 / 100000))],
                PDict [(''word'', PStr ''world'')]])]])]"

definition demo_env :: "unit align_env" where
  "demo_env =
     \<lparr>path_exists = (\<lambda>p. True),
      read_text = (\<lambda>p. Inr '' hello world ''),
      import_whisperx = None,
      import_torch = None,
      cuda_is_available = Inr False,
      load_align_model = (\<lambda>l d. Inr ((), PDict [])),
      load_audio = (\<lambda>p. Inr (replicate 8 0)),
      align = (\<lambda>segs m meta au d r. Inr demo_result)\<rparr>"

definition env_no_audio :: "unit align_env" where
  "env_no_audio = demo_env\<lparr>path_exists := (\<lambda>p. p \<noteq> ''a.wav'')\<rparr>"

definition env_blank_transcript :: "unit align_env" where
  "env_blank_transcript = demo_env\<lparr>read_text := (\<lambda>p. Inr [CHR '' '', CHR 0x0A, CHR 0x09])\<rparr>"

definition is_Align :: "'m align_call \<Rightarrow> bool" where
  "is_Align c = (case c of Align _ _ _ _ _ _ \<Rightarrow> True | _ \<Rightarrow> False)"

section \<open>Properties of the flattening\<close>

text \<open>A field of a JSON object, and \<^verbatim>\<open>d.get(k, default)\<close> on it.\<close>

definition field :: "string \<Rightarrow> pyval \<Rightarrow> pyval option" where
  "field k v = (case v of PDict kvs \<Rightarrow> map_of kvs k | _ \<Rightarrow> None)"

definition get_or :: "string \<Rightarrow> pyval \<Rightarrow> pyval \<Rightarrow> pyval" where
  "get_or k d v = (case field k v of None \<Rightarrow> d | Some x \<Rightarrow> x)"

text \<open>
  The nested structure of a library result: its segments, the words of a segment, and
  all its words in the order of the segments and of the words within each segment.
\<close>

definition segments_of :: "pyval \<Rightarrow> pyval list" where
  "segments_of result =
     (case py_get result ''segments'' (PList []) of
        Inl _ \<Rightarrow> []
      | Inr segs \<Rightarrow> (case py_iter segs of Inl _ \<Rightarrow> [] | Inr sl \<Rightarrow> sl))"

definition words_of :: "pyval \<Rightarrow> pyval list" where
  "words_of segment =
     (case py_get segment ''words'' (PList []) of
        Inl _ \<Rightarrow> []
      | Inr ws \<Rightarrow> (case py_iter ws of Inl _ \<Rightarrow> [] | Inr wl \<Rightarrow> wl))"

definition source_words :: "pyval \<Rightarrow> pyval list" where
  "source_words result = concat (map words_of (segments_of result))"

text \<open>
  The shape of a library result: an object whose \<^verbatim>\<open>segments\<close>, when present, is a list
  of objects whose \<^verbatim>\<open>words\<close>, when present, is a list of word records. A word record
  of WhisperX is an object whose \<^verbatim>\<open>start\<close>, \<^verbatim>\<open>end\<close> and \<^verbatim>\<open>score\<close>, when present, are
  numbers; a word record of Whisper is an object.
\<close>

definition is_number :: "pyval \<Rightarrow> bool" where
  "is_number v = (case v of PInt _ \<Rightarrow> True | PFloat _ \<Rightarrow> True | _ \<Rightarrow> False)"

definition is_dict :: "pyval \<Rightarrow> bool" where
  "is_dict v = (case v of PDict _ \<Rightarrow> True | _ \<Rightarrow> False)"

definition opt_number :: "string \<Rightarrow> pyval \<Rightarrow> bool" where
  "opt_number k v = (case field k v of None \<Rightarrow> True | Some x \<Rightarrow> is_number x)"

definition wf_align_word :: "pyval \<Rightarrow> bool" where
  "wf_align_word wd =
     (is_dict wd \<and> opt_number ''start'' wd \<and> opt_number ''end'' wd \<and> opt_number ''score'' wd)"

definition wf_segment :: "(pyval \<Rightarrow> bool) \<Rightarrow> pyval \<Rightarrow> bool" where
  "wf_segment word_ok seg =
     (is_dict seg \<and>
      (case field ''words'' seg of
         None \<Rightarrow> True
       | Some (PList ws) \<Rightarrow> list_all word_ok ws
       | Some _ \<Rightarrow> False))"

definition wf_result :: "(pyval \<Rightarrow> bool) \<Rightarrow> pyval \<Rightarrow> bool" where
  "wf_result word_ok result =
     (is_dict result \<and>
      (case field ''segments'' result of
         None \<Rightarrow> True
       | Some (PList ss) \<Rightarrow> list_all (wf_segment word_ok) ss
       | Some _ \<Rightarrow> False))"

text \<open>
  The flattening as the specification words it, for one source word and the record
  emitted for it: \<^verbatim>\<open>start\<close> and \<^verbatim>\<open>end\<close> are those of the source (0 when it has none)
  rounded to 3 decimals, and the score is there only when the source has one.
\<close>

definition rounded_from :: "pyval \<Rightarrow> pyval option \<Rightarrow> bool" where
  "rounded_from src out = (case out of None \<Rightarrow> False | Some v \<Rightarrow> py_round3 src = Inr v)"

definition flattened_as_claimed :: "string \<Rightarrow> string \<Rightarrow> pyval \<Rightarrow> pyval \<Rightarrow> bool" where
  "flattened_as_claimed score_key out_key word_data rec =
     (rounded_from (get_or ''start'' (PInt 0) word_data) (field ''start'' rec) \<and>
      rounded_from (get_or ''end'' (PInt 0) word_data) (field ''end'' rec) \<and>
      (field out_key rec = None \<or> field score_key word_data \<noteq> None))"

text \<open>
  What the transcription tool does instead: the three fields are copied as they are,
  and \<^verbatim>\<open>probability\<close> is always there, \<^verbatim>\<open>None\<close> when the source has none.
\<close>

definition timing_copied :: "pyval \<Rightarrow> pyval \<Rightarrow> bool" where
  "timing_copied word_data rec =
     (field ''start'' rec = Some (get_or ''start'' (PInt 0) word_data) \<and>
      field ''end'' rec = Some (get_or ''end'' (PInt 0) word_data))"

definition whisper_flattened :: "pyval \<Rightarrow> pyval \<Rightarrow> bool" where
  "whisper_flattened word_data rec =
     (timing_copied word_data rec \<and>
      field ''probability'' rec = Some (get_or ''probability'' PNone word_data))"

text \<open>The defaults of a word record that lacks a field.\<close>

definition defaults_filled :: "pyval \<Rightarrow> pyval \<Rightarrow> bool" where
  "defaults_filled word_data rec =
     ((field ''start'' word_data = None \<longrightarrow> field ''start'' rec = Some (PInt 0)) \<and>
      (field ''end'' word_data = None \<longrightarrow> field ''end'' rec = Some (PInt 0)) \<and>
      (field ''word'' word_data = None \<longrightarrow> field ''word'' rec = Some (PStr [])))"

text \<open>\<^verbatim>\<open>start <= end\<close> on the timing of a record, a missing field read as 0.\<close>

definition num_val :: "pyval \<Rightarrow> rat option" where
  "num_val v =
     (case v of
        PInt n \<Rightarrow> Some (of_int n)
      | PFloat x \<Rightarrow> Some x
      | PBool b \<Rightarrow> Some (if b then 1 else 0)
      | _ \<Rightarrow> None)"

definition start_le_end :: "pyval \<Rightarrow> bool" where
  "start_le_end v =
     (case num_val (get_or ''start'' (PInt 0) v) of
        None \<Rightarrow> False
      | Some a \<Rightarrow>
          (case num_val (get_or ''end'' (PInt 0) v) of None \<Rightarrow> False | Some b \<Rightarrow> a \<le> b))"

section \<open>Properties of the failures and of the calls\<close>

text \<open>An error reported once on one stream, nothing on the other, and a non-zero exit code.\<close>

definition nonzero_exit :: "'c outcome \<Rightarrow> bool" where
  "nonzero_exit r = (case ending r of Exit n \<Rightarrow> n \<noteq> 0 | Uncaught _ \<Rightarrow> False)"

definition error_on_stderr :: "'c outcome \<Rightarrow> bool" where
  "error_on_stderr r =
     ((case stderr r of [obj] \<Rightarrow> is_error_object obj | _ \<Rightarrow> False) \<and>
      stdout r = [] \<and> nonzero_exit r)"

definition error_on_stdout :: "'c outcome \<Rightarrow> bool" where
  "error_on_stdout r =
     ((case stdout r of [obj] \<Rightarrow> is_error_object obj | _ \<Rightarrow> False) \<and>
      stderr r = [] \<and> nonzero_exit r)"

text \<open>
  The arguments of a call of the alignment tool that are strings or JSON values (the
  model and the audio are neither), and whether a string is passed to some call of a run.
\<close>

fun call_args :: "'m align_call \<Rightarrow> pyval list" where
  "call_args (Import n) = []"
| "call_args CudaIsAvailable = []"
| "call_args (LoadAlignModel l d) = [PStr l, PStr d]"
| "call_args (LoadAudio p) = [PStr p]"
| "call_args (Align segs m meta au d r) = [segs, meta, PStr d, PBool r]"

definition passed_onward :: "string \<Rightarrow> 'm align_call outcome \<Rightarrow> bool" where
  "passed_onward s r = list_ex (\<lambda>c. PStr s \<in> set (call_args c)) (calls r)"

text \<open>A transcript file that is not valid UTF-8: \<^verbatim>\<open>f.read()\<close> raises.\<close>

definition env_undecodable :: "unit align_env" where
  "env_undecodable =
     demo_env\<lparr>read_text := (\<lambda>p. Inl (Exc ExceptionClass ''UnicodeDecodeError''
        ''utf-8 codec cannot decode byte 0xe9 in position 0''))\<rparr>"

text \<open>The alignment model cannot be loaded.\<close>

definition env_load_fails :: "unit align_env" where
  "env_load_fails =
     demo_env\<lparr>load_align_model := (\<lambda>l d. Inl (Exc ExceptionClass ''ValueError''
        ''No default align-model for language: yi''))\<rparr>"

definition whisper_demo_args :: whisper_args where
  "whisper_demo_args =
     \<lparr>w_audio = ''a.wav'', w_model = ''base'', w_language = ''yi'', w_device = ''cpu'',
      w_output = ''json''\<rparr>"

text \<open>
  A transcription result with one segment of two words; the second has neither
  \<^verbatim>\<open>end\<close> nor \<^verbatim>\<open>probability\<close>.
\<close>

definition whisper_demo_result :: pyval where
  "whisper_demo_result =
     PDict [(''text'', PStr ''a b''),
            (''segments'',
       PList [PDict [(''words'',
         PList [PDict [(''word'', PStr ''a''), (''start'', PFloat (123456 / 100000)),
                       (''end'', PFloat (5 / 2)), (''probability'', PFloat (9 / 10))],
                PDict [(''word'', PStr ''b''), (''start'', PFloat 5)]])]])]"

definition whisper_demo_words :: "pyval list" where
  "whisper_demo_words =
     [PDict [(''word'', PStr ''a''), (''start'', PFloat (123456 / 100000)),
             (''end'', PFloat (5 / 2)), (''probability'', PFloat (9 / 10))],
      PDict [(''word'', PStr ''b''), (''start'', PFloat 5), (''end'', PInt 0),
             (''probability'', PNone)]]"

definition whisper_demo_env :: "unit whisper_env" where
  "whisper_demo_env =
     \<lparr>import_whisper = None,
      load_model = (\<lambda>n d. Inr ()),
      transcribe = (\<lambda>m a l wt v. Inr whisper_demo_result)\<rparr>"

definition whisper_env_load_fails :: "unit whisper_env" where
  "whisper_env_load_fails =
     whisper_demo_env\<lparr>load_model := (\<lambda>n d. Inl (Exc ExceptionClass ''RuntimeError''
        ''Model base not found''))\<rparr>"

section \<open>Lemmas on the building blocks\<close>

lemma error_exit_simps [simp]:
  "stdout (error_exit obj cs) = []"
  "stderr (error_exit obj cs) = [obj]"
  "calls (error_exit obj cs) = cs"
  "ending (error_exit obj cs) = Exit 1"
  by (simp_all add: error_exit_def)

lemma crash_simps [simp]:
  "stdout (crash e cs) = []"
  "stderr (crash e cs) = []"
  "calls (crash e cs) = cs"
  "ending (crash e cs) = Uncaught e"
  by (simp_all add: crash_def)

lemma stdout_error_exit_simps [simp]:
  "stdout (stdout_error_exit obj cs) = [obj]"
  "stderr (stdout_error_exit obj cs) = []"
  "calls (stdout_error_exit obj cs) = cs"
  "ending (stdout_error_exit obj cs) = Exit 1"
  by (simp_all add: stdout_error_exit_def)

section \<open>The alignment tool: validation of the inputs\<close>

text \<open>
  C2. When the audio path does not exist, the alignment tool exits with code 1 and writes
  one JSON object with the key \<^verbatim>\<open>error\<close> to standard error, nothing to standard output,
  and no import, model load or alignment call has been reached.
\<close>

theorem align_missing_audio:
  "\<not> path_exists env (audio_path args) \<Longrightarrow>
     ending (align_main env args) = Exit 1 \<and>
     stdout (align_main env args) = [] \<and>
     stderr (align_main env args) =
       [PDict [(''error'', PStr (''Audio file not found: '' @ audio_path args))]] \<and>
     is_error_object (PDict [(''error'', PStr (''Audio file not found: '' @ audio_path args))]) \<and>
     calls (align_main env args) = []"
  by (simp add: align_main_def is_error_object_def)

theorem align_missing_audio_witness:
  "\<not> path_exists env_no_audio (audio_path demo_args) \<and>
   ending (align_main env_no_audio demo_args) = Exit 1 \<and>
   stderr (align_main env_no_audio demo_args) =
     [PDict [(''error'', PStr ''Audio file not found: a.wav'')]] \<and>
   calls (align_main env_no_audio demo_args) = []"
  using align_missing_audio [of env_no_audio demo_args]
  by (simp add: env_no_audio_def demo_args_def)

text \<open>
  C3. When the transcript file exists and its contents are empty after
  \<^verbatim>\<open>strip()\<close>, the alignment tool exits with code 1 and writes one JSON object with the
  key \<^verbatim>\<open>error\<close> to standard error; no import or library call, and so no alignment,
  has been reached.
\<close>

theorem align_blank_transcript:
  "path_exists env (text_path args) \<Longrightarrow>
   read_text env (text_path args) = Inr content \<Longrightarrow>
   py_strip content = [] \<Longrightarrow>
     ending (align_main env args) = Exit 1 \<and>
     stdout (align_main env args) = [] \<and>
     (\<exists>obj. stderr (align_main env args) = [obj] \<and> is_error_object obj) \<and>
     calls (align_main env args) = []"
  by (simp add: align_main_def is_error_object_def)

theorem align_blank_transcript_witness:
  "path_exists env_blank_transcript (text_path demo_args) \<and>
   read_text env_blank_transcript (text_path demo_args) = Inr [CHR '' '', CHR 0x0A, CHR 0x09] \<and>
   py_strip [CHR '' '', CHR 0x0A, CHR 0x09] = [] \<and>
   ending (align_main env_blank_transcript demo_args) = Exit 1 \<and>
   stderr (align_main env_blank_transcript demo_args) =
     [PDict [(''error'', PStr ''Transcript is empty'')]] \<and>
   calls (align_main env_blank_transcript demo_args) = []"
proof -
  have e: "path_exists env_blank_transcript (text_path demo_args)"
    by (simp add: env_blank_transcript_def demo_env_def)
  have r: "read_text env_blank_transcript (text_path demo_args) = Inr [CHR '' '', CHR 0x0A, CHR 0x09]"
    by (simp add: env_blank_transcript_def)
  have s: "py_strip [CHR '' '', CHR 0x0A, CHR 0x09] = []"
    by (simp add: py_strip_def is_space_def)
  have "stderr (align_main env_blank_transcript demo_args) =
          [PDict [(''error'', PStr ''Transcript is empty'')]]"
    by (simp add: align_main_def env_blank_transcript_def demo_env_def demo_args_def
        py_strip_def is_space_def)
  with align_blank_transcript [OF e r s] e r s show ?thesis
    by simp
qed

section \<open>The alignment tool: the successful run\<close>

text \<open>What a run that ends with exit code 0 has gone through.\<close>

lemma align_try_success:
  assumes "align_try env args t d = (ct, Inr out)"
  shows "\<exists>mdl meta au result words.
           load_align_model env (language args) d = Inr (mdl, meta) \<and>
           load_audio env (audio_path args) = Inr au \<and>
           align env (make_segments t au) mdl meta au d False = Inr result \<and>
           extract_words align_word result = Inr words \<and>
           out = align_output args au words \<and>
           ct = [LoadAlignModel (language args) d, LoadAudio (audio_path args),
                 Align (make_segments t au) mdl meta au d False]"
  using assms
  by (auto simp: align_try_def Let_def split: sum.splits prod.splits)

lemma align_main_success:
  assumes "ending (align_main env args) = Exit 0"
  shows "\<exists>content ci cd dev ct out.
           path_exists env (audio_path args) \<and> path_exists env (text_path args) \<and>
           read_text env (text_path args) = Inr content \<and> py_strip content \<noteq> [] \<and>
           align_imports env = (ci, None) \<and>
           resolve_device env (device args) = (cd, Inr dev) \<and>
           align_try env args (py_strip content) dev = (ct, Inr out) \<and>
           stdout (align_main env args) = [out] \<and> stderr (align_main env args) = [] \<and>
           calls (align_main env args) = ci @ cd @ ct"
  using assms
  by (auto simp: align_main_def Let_def split: sum.splits prod.splits option.splits if_splits)

text \<open>
  C9. In the success object of the alignment tool, \<^verbatim>\<open>word_count\<close> is the number of
  entries of \<^verbatim>\<open>words\<close>.
\<close>

theorem align_word_count:
  "ending (align_main env args) = Exit 0 \<Longrightarrow>
     \<exists>kvs ws. stdout (align_main env args) = [PDict kvs] \<and>
       map_of kvs ''words'' = Some (PList ws) \<and>
       map_of kvs ''word_count'' = Some (PInt (int (length ws)))"
proof -
  assume "ending (align_main env args) = Exit 0"
  from align_main_success [OF this] obtain content dev ct out where
    t: "align_try env args (py_strip content) dev = (ct, Inr out)"
    and o: "stdout (align_main env args) = [out]" by blast
  from align_try_success [OF t] obtain au words where "out = align_output args au words"
    by blast
  with o show ?thesis by (simp add: align_output_def)
qed

text \<open>The run of \<open>demo_env\<close>: two words aligned in eight samples of audio.\<close>

lemma demo_strip: "py_strip '' hello world '' = ''hello world''"
  by (simp add: py_strip_def is_space_def)

lemma demo_words:
  "extract_words align_word demo_result =
     Inr [PDict [(''word'', PStr ''hello''), (''start'', PFloat (round3 (1234 / 10000))),
                 (''end'', PFloat (round3 (1 / 2))),
                 (''confidence'', PFloat (round3 (98765 / 100000)))],
          PDict [(''word'', PStr ''world''), (''start'', PInt 0), (''end'', PInt 0)]]"
  by (simp add: extract_words_def demo_result_def align_word_def)

lemma demo_run:
  "align_main demo_env demo_args =
     \<lparr>stdout = [align_output demo_args (replicate 8 0)
        [PDict [(''word'', PStr ''hello''), (''start'', PFloat (round3 (1234 / 10000))),
                 (''end'', PFloat (round3 (1 / 2))),
                 (''confidence'', PFloat (round3 (98765 / 100000)))],
          PDict [(''word'', PStr ''world''), (''start'', PInt 0), (''end'', PInt 0)]]],
      stderr = [],
      calls = [Import ''whisperx'', Import ''torch'', LoadAlignModel ''yi'' ''cpu'',
               LoadAudio ''a.wav'',
               Align (make_segments ''hello world'' (replicate 8 0)) () (PDict [])
                 (replicate 8 0) ''cpu'' False],
      ending = Exit 0\<rparr>"
  by (simp add: align_main_def demo_env_def demo_args_def demo_strip align_imports_def
      resolve_device_def align_try_def demo_words)

theorem align_word_count_witness:
  "ending (align_main demo_env demo_args) = Exit 0 \<and>
   (\<exists>kvs ws. stdout (align_main demo_env demo_args) = [PDict kvs] \<and>
      map_of kvs ''words'' = Some (PList ws) \<and>
      map_of kvs ''word_count'' = Some (PInt (int (length ws))))"
proof -
  have e: "ending (align_main demo_env demo_args) = Exit 0"
    by (simp add: demo_run)
  from align_word_count [OF e] e show ?thesis
    by simp
qed

text \<open>The imports and the device probe are not alignment calls.\<close>

lemma align_imports_no_Align: "align_imports env = (ci, x) \<Longrightarrow> filter is_Align ci = []"
  by (auto simp: align_imports_def is_Align_def split: option.splits)

lemma resolve_device_no_Align: "resolve_device env d = (cd, x) \<Longrightarrow> filter is_Align cd = []"
  by (auto simp: resolve_device_def is_Align_def split: if_splits)

text \<open>
  C8. A successful run of the alignment tool makes one alignment call, and passes it one
  segment: its text is the stripped transcript, its start \<^verbatim>\<open>0.0\<close>, its end the number of
  audio samples divided by 16000. The \<^verbatim>\<open>duration\<close> of the success object is that
  quotient rounded to 3 decimals.
\<close>

theorem align_single_segment:
  "ending (align_main env args) = Exit 0 \<Longrightarrow>
     \<exists>content au mdl meta dev kvs.
       read_text env (text_path args) = Inr content \<and>
       load_audio env (audio_path args) = Inr au \<and>
       filter is_Align (calls (align_main env args)) =
         [Align (PList [PDict [(''text'', PStr (py_strip content)),
                               (''start'', PFloat 0),
                               (''end'', PFloat (truediv (int (length au)) 16000))]])
            mdl meta au dev False] \<and>
       stdout (align_main env args) = [PDict kvs] \<and>
       map_of kvs ''duration'' = Some (PFloat (round3 (truediv (int (length au)) 16000)))"
proof -
  assume "ending (align_main env args) = Exit 0"
  from align_main_success [OF this] obtain content ci cd dev ct out where
    r: "read_text env (text_path args) = Inr content"
    and i: "align_imports env = (ci, None)"
    and d: "resolve_device env (device args) = (cd, Inr dev)"
    and t: "align_try env args (py_strip content) dev = (ct, Inr out)"
    and o: "stdout (align_main env args) = [out]"
    and c: "calls (align_main env args) = ci @ cd @ ct" by blast
  from align_try_success [OF t] obtain mdl meta au words where
    a: "load_audio env (audio_path args) = Inr au"
    and out: "out = align_output args au words"
    and ct: "ct = [LoadAlignModel (language args) dev, LoadAudio (audio_path args),
                 Align (make_segments (py_strip content) au) mdl meta au dev False]"
    by blast
  have "filter is_Align (calls (align_main env args)) =
          [Align (make_segments (py_strip content) au) mdl meta au dev False]"
    using c ct align_imports_no_Align [OF i] resolve_device_no_Align [OF d]
    by (simp add: is_Align_def)
  with r a o out show ?thesis
    by (simp add: make_segments_def align_output_def)
qed

theorem align_single_segment_witness:
  "ending (align_main demo_env demo_args) = Exit 0 \<and>
   (\<exists>mdl meta dev kvs.
      filter is_Align (calls (align_main demo_env demo_args)) =
        [Align (PList [PDict [(''text'', PStr ''hello world''),
                              (''start'', PFloat 0),
                              (''end'', PFloat (truediv 8 16000))]])
           mdl meta (replicate 8 0) dev False] \<and>
      stdout (align_main demo_env demo_args) = [PDict kvs] \<and>
      map_of kvs ''duration'' = Some (PFloat (round3 (truediv 8 16000))))"
proof -
  have e: "ending (align_main demo_env demo_args) = Exit 0"
    by (simp add: demo_run)
  have r: "read_text demo_env (text_path demo_args) = Inr '' hello world ''"
    by (simp add: demo_env_def)
  have a: "load_audio demo_env (audio_path demo_args) = Inr (replicate 8 0)"
    by (simp add: demo_env_def)
  from align_single_segment [OF e] r a e show ?thesis
    by (auto simp: demo_strip)
qed

section \<open>The two loops\<close>

text \<open>
  When the loops return, the list they return is the accumulator followed by one record
  for each word, in order, each made by \<open>f\<close> from its word.
\<close>

lemma words_loop_Inr:
  "words_loop f wl acc = Inr res \<Longrightarrow>
     \<exists>recs. res = acc @ recs \<and> list_all2 (\<lambda>wd rec. f wd = Inr rec) wl recs"
proof (induction wl arbitrary: acc)
  case Nil
  then show ?case by simp
next
  case (Cons wd wl)
  from Cons.prems obtain rec where f: "f wd = Inr rec"
    and l: "words_loop f wl (acc @ [rec]) = Inr res"
    by (auto split: sum.splits)
  from Cons.IH [OF l] obtain recs where "res = (acc @ [rec]) @ recs"
    and "list_all2 (\<lambda>wd rec. f wd = Inr rec) wl recs" by blast
  with f have "res = acc @ (rec # recs) \<and> list_all2 (\<lambda>wd rec. f wd = Inr rec) (wd # wl) (rec # recs)"
    by simp
  then show ?case by blast
qed

lemma segments_loop_Inr:
  "segments_loop f sl acc = Inr res \<Longrightarrow>
     \<exists>recs. res = acc @ recs \<and>
       list_all2 (\<lambda>wd rec. f wd = Inr rec) (concat (map words_of sl)) recs"
proof (induction sl arbitrary: acc)
  case Nil
  then show ?case by simp
next
  case (Cons seg sl)
  from Cons.prems obtain ws wl acc' where g: "py_get seg ''words'' (PList []) = Inr ws"
    and i: "py_iter ws = Inr wl"
    and w: "words_loop f wl acc = Inr acc'"
    and s: "segments_loop f sl acc' = Inr res"
    by (auto split: sum.splits)
  from g i have wo: "words_of seg = wl" by (simp add: words_of_def)
  from words_loop_Inr [OF w] obtain r1 where a1: "acc' = acc @ r1"
    and l1: "list_all2 (\<lambda>wd rec. f wd = Inr rec) wl r1" by blast
  from Cons.IH [OF s] obtain r2 where a2: "res = acc' @ r2"
    and l2: "list_all2 (\<lambda>wd rec. f wd = Inr rec) (concat (map words_of sl)) r2" by blast
  from l1 l2 have "list_all2 (\<lambda>wd rec. f wd = Inr rec) (wl @ concat (map words_of sl)) (r1 @ r2)"
    by (rule list_all2_appendI)
  with a1 a2 wo have "res = acc @ (r1 @ r2) \<and>
      list_all2 (\<lambda>wd rec. f wd = Inr rec) (concat (map words_of (seg # sl))) (r1 @ r2)"
    by simp
  then show ?case by blast
qed

lemma extract_words_Inr:
  assumes "extract_words f result = Inr recs"
  shows "list_all2 (\<lambda>wd rec. f wd = Inr rec) (source_words result) recs"
proof -
  from assms obtain segs sl where g: "py_get result ''segments'' (PList []) = Inr segs"
    and i: "py_iter segs = Inr sl" and s: "segments_loop f sl [] = Inr recs"
    by (auto simp: extract_words_def split: sum.splits)
  from g i have "segments_of result = sl" by (simp add: segments_of_def)
  with segments_loop_Inr [OF s] show ?thesis by (simp add: source_words_def)
qed

lemma words_loop_total:
  "list_all (\<lambda>wd. \<exists>rec. f wd = Inr rec) wl \<Longrightarrow> \<exists>res. words_loop f wl acc = Inr res"
  by (induction wl arbitrary: acc) auto

lemma wf_segment_words:
  assumes "wf_segment word_ok seg"
  shows "\<exists>ws wl. py_get seg ''words'' (PList []) = Inr ws \<and> py_iter ws = Inr wl \<and>
           list_all word_ok wl"
proof -
  from assms obtain kvs where seg: "seg = PDict kvs"
    by (cases seg) (auto simp: wf_segment_def is_dict_def)
  show ?thesis
  proof (cases "map_of kvs ''words''")
    case None
    with seg show ?thesis by simp
  next
    case (Some v)
    with assms seg obtain ws where "v = PList ws" and "list_all word_ok ws"
      by (cases v) (auto simp: wf_segment_def field_def)
    with seg Some show ?thesis by simp
  qed
qed

lemma segments_loop_total:
  assumes ok: "\<forall>wd. word_ok wd \<longrightarrow> (\<exists>rec. f wd = Inr rec)"
  shows "list_all (wf_segment word_ok) sl \<Longrightarrow> \<exists>res. segments_loop f sl acc = Inr res"
proof (induction sl arbitrary: acc)
  case Nil
  then show ?case by simp
next
  case (Cons seg sl)
  then have "wf_segment word_ok seg" and rest: "list_all (wf_segment word_ok) sl" by simp_all
  from wf_segment_words [OF this(1)] obtain ws wl where
    g: "py_get seg ''words'' (PList []) = Inr ws" and i: "py_iter ws = Inr wl"
    and a: "list_all word_ok wl" by blast
  from a ok have "list_all (\<lambda>wd. \<exists>rec. f wd = Inr rec) wl"
    by (simp add: list_all_iff)
  from words_loop_total [OF this] obtain acc' where w: "words_loop f wl acc = Inr acc'"
    by blast
  from Cons.IH [OF rest] obtain res where "segments_loop f sl acc' = Inr res" by blast
  with g i w show ?case by simp
qed

lemma wf_result_segments:
  assumes "wf_result word_ok result"
  shows "\<exists>segs sl. py_get result ''segments'' (PList []) = Inr segs \<and> py_iter segs = Inr sl \<and>
           list_all (wf_segment word_ok) sl"
proof -
  from assms obtain kvs where r: "result = PDict kvs"
    by (cases result) (auto simp: wf_result_def is_dict_def)
  show ?thesis
  proof (cases "map_of kvs ''segments''")
    case None
    with r show ?thesis by simp
  next
    case (Some v)
    with assms r obtain ss where "v = PList ss" and "list_all (wf_segment word_ok) ss"
      by (cases v) (auto simp: wf_result_def field_def)
    with r Some show ?thesis by simp
  qed
qed

lemma extract_words_total:
  assumes ok: "\<forall>wd. word_ok wd \<longrightarrow> (\<exists>rec. f wd = Inr rec)"
    and wf: "wf_result word_ok result"
  shows "\<exists>recs. extract_words f result = Inr recs"
proof -
  from wf_result_segments [OF wf] obtain segs sl where
    "py_get result ''segments'' (PList []) = Inr segs" and "py_iter segs = Inr sl"
    and "list_all (wf_segment word_ok) sl" by blast
  with segments_loop_total [of word_ok f sl "[]"] ok show ?thesis
    by (auto simp: extract_words_def)
qed

lemma wf_source_words:
  assumes "wf_result word_ok result"
  shows "list_all word_ok (source_words result)"
proof -
  from wf_result_segments [OF assms] obtain segs sl where
    "py_get result ''segments'' (PList []) = Inr segs" and "py_iter segs = Inr sl"
    and sl: "list_all (wf_segment word_ok) sl" by blast
  then have s: "segments_of result = sl" by (simp add: segments_of_def)
  have "list_all word_ok (words_of seg)" if "wf_segment word_ok seg" for seg
    using wf_segment_words [OF that] by (auto simp: words_of_def)
  with sl have "list_all word_ok (concat (map words_of sl))"
    by (induction sl) auto
  with s show ?thesis by (simp add: source_words_def)
qed

text \<open>On a well-formed result the extraction returns, one record for each source word.\<close>

lemma extract_words_wf:
  assumes ok: "\<forall>wd. word_ok wd \<longrightarrow> (\<exists>rec. f wd = Inr rec)"
    and wf: "wf_result word_ok result"
  shows "\<exists>recs. extract_words f result = Inr recs \<and>
           list_all2 (\<lambda>wd rec. word_ok wd \<and> f wd = Inr rec) (source_words result) recs"
proof -
  from extract_words_total [OF ok wf] obtain recs where e: "extract_words f result = Inr recs"
    by blast
  from extract_words_Inr [OF e] wf_source_words [OF wf]
  have "list_all2 (\<lambda>wd rec. word_ok wd \<and> f wd = Inr rec) (source_words result) recs"
    by (auto simp: list_all2_conv_all_nth list_all_length)
  with e show ?thesis by blast
qed

section \<open>The record of one word\<close>

lemma py_round3_number: "is_number v \<Longrightarrow> \<exists>r. py_round3 v = Inr r"
  by (cases v) (auto simp: is_number_def)

lemma align_word_wf:
  assumes "wf_align_word wd"
  shows "\<exists>rec. align_word wd = Inr rec \<and>
           flattened_as_claimed ''score'' ''confidence'' wd rec \<and> defaults_filled wd rec"
proof -
  from assms obtain kvs where wd: "wd = PDict kvs"
    by (cases wd) (auto simp: wf_align_word_def is_dict_def)
  from assms wd obtain s where s: "py_round3 (get_or ''start'' (PInt 0) wd) = Inr s"
    and s0: "map_of kvs ''start'' = None \<longrightarrow> s = PInt 0"
    using py_round3_number
    by (cases "map_of kvs ''start''")
       (auto simp: wf_align_word_def opt_number_def get_or_def field_def)
  from assms wd obtain en where en: "py_round3 (get_or ''end'' (PInt 0) wd) = Inr en"
    and en0: "map_of kvs ''end'' = None \<longrightarrow> en = PInt 0"
    using py_round3_number
    by (cases "map_of kvs ''end''")
       (auto simp: wf_align_word_def opt_number_def get_or_def field_def)
  show ?thesis
  proof (cases "map_of kvs ''score''")
    case None
    with wd s en s0 en0 show ?thesis
      by (auto simp: align_word_def get_or_def field_def flattened_as_claimed_def
          rounded_from_def defaults_filled_def split: option.splits)
  next
    case (Some sc)
    with assms wd have "is_number sc"
      by (simp add: wf_align_word_def opt_number_def field_def)
    from py_round3_number [OF this] obtain c where "py_round3 sc = Inr c" by blast
    with Some wd s en s0 en0 show ?thesis
      by (auto simp: align_word_def get_or_def field_def flattened_as_claimed_def
          rounded_from_def defaults_filled_def split: option.splits)
  qed
qed

lemma whisper_word_dict:
  assumes "is_dict wd"
  shows "\<exists>rec. whisper_word wd = Inr rec \<and> whisper_flattened wd rec \<and> defaults_filled wd rec"
proof -
  from assms obtain kvs where wd: "wd = PDict kvs"
    by (cases wd) (auto simp: is_dict_def)
  then show ?thesis
    by (auto simp: whisper_word_def get_or_def field_def whisper_flattened_def
        timing_copied_def defaults_filled_def split: option.splits)
qed

lemma align_word_Inr:
  assumes "wf_align_word wd" and "align_word wd = Inr rec"
  shows "flattened_as_claimed ''score'' ''confidence'' wd rec \<and> defaults_filled wd rec"
  using align_word_wf [OF assms(1)] assms(2) by auto

lemma whisper_word_Inr:
  assumes "whisper_word wd = Inr rec"
  shows "whisper_flattened wd rec \<and> defaults_filled wd rec"
proof -
  from assms have "is_dict wd"
    by (cases wd) (auto simp: whisper_word_def is_dict_def)
  from whisper_word_dict [OF this] assms show ?thesis by auto
qed

section \<open>The flattening\<close>

text \<open>
  C5, as the code has it. On every well-formed result of WhisperX the alignment tool
  makes one record for each word, in order, whose \<^verbatim>\<open>start\<close> and \<^verbatim>\<open>end\<close> are those of
  the source rounded to 3 decimals and which has a \<^verbatim>\<open>confidence\<close> only when the source
  has a \<^verbatim>\<open>score\<close>. On every well-formed result of Whisper the transcription tool makes
  one record for each word, in order, whose \<^verbatim>\<open>start\<close> and \<^verbatim>\<open>end\<close> are those of the
  source as they are, not rounded, and which always has a \<^verbatim>\<open>probability\<close>, \<^verbatim>\<open>None\<close>
  when the source has none.
\<close>

theorem flattening_by_tool:
  "(wf_result wf_align_word r \<longrightarrow>
      (\<exists>recs. extract_words align_word r = Inr recs \<and>
         list_all2 (flattened_as_claimed ''score'' ''confidence'') (source_words r) recs)) \<and>
   (wf_result is_dict r' \<longrightarrow>
      (\<exists>recs. extract_words whisper_word r' = Inr recs \<and>
         list_all2 whisper_flattened (source_words r') recs))"
proof (intro conjI impI)
  assume wf: "wf_result wf_align_word r"
  have "\<forall>wd. wf_align_word wd \<longrightarrow> (\<exists>rec. align_word wd = Inr rec)"
    using align_word_wf by blast
  from extract_words_wf [OF this wf] obtain recs where
    e: "extract_words align_word r = Inr recs"
    and l: "list_all2 (\<lambda>wd rec. wf_align_word wd \<and> align_word wd = Inr rec) (source_words r) recs"
    by blast
  from l have "list_all2 (flattened_as_claimed ''score'' ''confidence'') (source_words r) recs"
    by (rule list_all2_mono) (simp add: align_word_Inr)
  with e show "\<exists>recs. extract_words align_word r = Inr recs \<and>
         list_all2 (flattened_as_claimed ''score'' ''confidence'') (source_words r) recs"
    by blast
next
  assume wf: "wf_result is_dict r'"
  have "\<forall>wd. is_dict wd \<longrightarrow> (\<exists>rec. whisper_word wd = Inr rec)"
    using whisper_word_dict by blast
  from extract_words_wf [OF this wf] obtain recs where
    e: "extract_words whisper_word r' = Inr recs"
    and l: "list_all2 (\<lambda>wd rec. is_dict wd \<and> whisper_word wd = Inr rec) (source_words r') recs"
    by blast
  from l have "list_all2 whisper_flattened (source_words r') recs"
    by (rule list_all2_mono) (simp add: whisper_word_Inr)
  with e show "\<exists>recs. extract_words whisper_word r' = Inr recs \<and>
         list_all2 whisper_flattened (source_words r') recs"
    by blast
qed

text \<open>
  C10. For a word record that lacks \<^verbatim>\<open>start\<close>, \<^verbatim>\<open>end\<close> or \<^verbatim>\<open>word\<close>, both tools still
  make a record, with 0 for a missing \<^verbatim>\<open>start\<close> or \<^verbatim>\<open>end\<close> and the empty string for a
  missing \<^verbatim>\<open>word\<close>: the extraction returns, and its list has one record for each source
  word, in order, with these defaults.
\<close>

theorem missing_fields_defaulted:
  "(wf_result wf_align_word r \<longrightarrow>
      (\<exists>recs. extract_words align_word r = Inr recs \<and>
         list_all2 defaults_filled (source_words r) recs)) \<and>
   (wf_result is_dict r' \<longrightarrow>
      (\<exists>recs. extract_words whisper_word r' = Inr recs \<and>
         list_all2 defaults_filled (source_words r') recs))"
proof (intro conjI impI)
  assume wf: "wf_result wf_align_word r"
  have "\<forall>wd. wf_align_word wd \<longrightarrow> (\<exists>rec. align_word wd = Inr rec)"
    using align_word_wf by blast
  from extract_words_wf [OF this wf] obtain recs where
    e: "extract_words align_word r = Inr recs"
    and l: "list_all2 (\<lambda>wd rec. wf_align_word wd \<and> align_word wd = Inr rec) (source_words r) recs"
    by blast
  from l have "list_all2 defaults_filled (source_words r) recs"
    by (rule list_all2_mono) (simp add: align_word_Inr)
  with e show "\<exists>recs. extract_words align_word r = Inr recs \<and>
         list_all2 defaults_filled (source_words r) recs"
    by blast
next
  assume wf: "wf_result is_dict r'"
  have "\<forall>wd. is_dict wd \<longrightarrow> (\<exists>rec. whisper_word wd = Inr rec)"
    using whisper_word_dict by blast
  from extract_words_wf [OF this wf] obtain recs where
    e: "extract_words whisper_word r' = Inr recs"
    and l: "list_all2 (\<lambda>wd rec. is_dict wd \<and> whisper_word wd = Inr rec) (source_words r') recs"
    by blast
  from l have "list_all2 defaults_filled (source_words r') recs"
    by (rule list_all2_mono) (simp add: whisper_word_Inr)
  with e show "\<exists>recs. extract_words whisper_word r' = Inr recs \<and>
         list_all2 defaults_filled (source_words r') recs"
    by blast
qed

section \<open>The flattening on the concrete results\<close>

text \<open>
  The transcription tool on \<open>whisper_demo_result\<close>: the \<^verbatim>\<open>start\<close> 1.23456 of the first
  word is emitted as it is, which is not what \<^verbatim>\<open>round(1.23456, 3)\<close> gives, and the
  second word gets a \<^verbatim>\<open>probability\<close> that its source does not have.
\<close>

lemma round3_demo: "round3 (123456 / 100000) \<noteq> 123456 / 100000"
  by code_simp

lemma demo_result_wf: "wf_result wf_align_word demo_result"
  by (simp add: wf_result_def wf_segment_def wf_align_word_def is_dict_def opt_number_def
      field_def is_number_def demo_result_def)

lemma whisper_demo_result_wf: "wf_result is_dict whisper_demo_result"
  by (simp add: wf_result_def wf_segment_def is_dict_def field_def whisper_demo_result_def)

lemma whisper_demo_source:
  "source_words whisper_demo_result =
     [PDict [(''word'', PStr ''a''), (''start'', PFloat (123456 / 100000)),
             (''end'', PFloat (5 / 2)), (''probability'', PFloat (9 / 10))],
      PDict [(''word'', PStr ''b''), (''start'', PFloat 5)]]"
  by (simp add: source_words_def segments_of_def words_of_def whisper_demo_result_def)

lemma whisper_demo_extract:
  "extract_words whisper_word whisper_demo_result = Inr whisper_demo_words"
  by (simp add: extract_words_def whisper_demo_result_def whisper_word_def
      whisper_demo_words_def)

theorem whisper_not_rounded:
  "wf_result is_dict whisper_demo_result \<and>
   extract_words whisper_word whisper_demo_result = Inr whisper_demo_words \<and>
   \<not> list_all2 (flattened_as_claimed ''probability'' ''probability'')
        (source_words whisper_demo_result) whisper_demo_words"
proof -
  have "\<not> list_all2 (flattened_as_claimed ''probability'' ''probability'')
        (source_words whisper_demo_result) whisper_demo_words"
    using round3_demo
    by (simp add: whisper_demo_source whisper_demo_words_def flattened_as_claimed_def
        rounded_from_def get_or_def field_def)
  with whisper_demo_result_wf whisper_demo_extract show ?thesis by simp
qed

theorem flattening_by_tool_witness:
  "wf_result wf_align_word demo_result \<and>
   (\<exists>recs. extract_words align_word demo_result = Inr recs \<and>
      list_all2 (flattened_as_claimed ''score'' ''confidence'') (source_words demo_result) recs) \<and>
   wf_result is_dict whisper_demo_result \<and>
   (\<exists>recs. extract_words whisper_word whisper_demo_result = Inr recs \<and>
      list_all2 whisper_flattened (source_words whisper_demo_result) recs)"
  using flattening_by_tool [of demo_result whisper_demo_result]
    demo_result_wf whisper_demo_result_wf
  by simp

theorem missing_fields_defaulted_witness:
  "wf_result wf_align_word demo_result \<and>
   extract_words whisper_word whisper_demo_result = Inr whisper_demo_words \<and>
   (\<exists>recs. extract_words align_word demo_result = Inr recs \<and>
      list_all2 defaults_filled (source_words demo_result) recs) \<and>
   wf_result is_dict whisper_demo_result \<and>
   (\<exists>recs. extract_words whisper_word whisper_demo_result = Inr recs \<and>
      list_all2 defaults_filled (source_words whisper_demo_result) recs)"
  using missing_fields_defaulted [of demo_result whisper_demo_result]
    demo_result_wf whisper_demo_result_wf whisper_demo_extract
  by simp

section \<open>The transcription tool: the successful run\<close>

lemma whisper_output_Inr:
  assumes "whisper_output args result words = Inr out"
  shows "\<exists>t l d segs. out = PDict [(''text'', t), (''language'', l), (''duration'', d),
           (''segments'', segs), (''words'', PList words)]"
  using assms by (auto simp: whisper_output_def split: sum.splits)

lemma whisper_try_success:
  assumes "whisper_try env args = (ct, Inr out)"
  shows "\<exists>mdl result words.
           load_model env (w_model args) (w_device args) = Inr mdl \<and>
           transcribe env mdl (w_audio args) (w_language args) True False = Inr result \<and>
           extract_words whisper_word result = Inr words \<and>
           whisper_output args result words = Inr out"
  using assms by (auto simp: whisper_try_def Let_def split: sum.splits)

lemma whisper_main_success:
  assumes "ending (whisper_main env args) = Exit 0"
  shows "\<exists>ct out. import_whisper env = None \<and> whisper_try env args = (ct, Inr out) \<and>
           stdout (whisper_main env args) = [out] \<and> stderr (whisper_main env args) = []"
  using assms
  by (auto simp: whisper_main_def split: option.splits sum.splits prod.splits if_splits)

lemma timing_copied_le:
  assumes "timing_copied wd rec"
  shows "start_le_end rec = start_le_end wd"
proof -
  from assms have "get_or ''start'' (PInt 0) rec = get_or ''start'' (PInt 0) wd"
    and "get_or ''end'' (PInt 0) rec = get_or ''end'' (PInt 0) wd"
    by (simp_all add: timing_copied_def get_or_def)
  then show ?thesis
    by (simp add: start_le_end_def split: option.splits)
qed

text \<open>
  C7, as the code has it. In the success object of the transcription tool, \<^verbatim>\<open>words\<close>
  has one record for each word of the library result, in the order of the segments and
  of the words within each segment. Each record has the \<^verbatim>\<open>start\<close> and \<^verbatim>\<open>end\<close> of its
  source word as they are, 0 for a missing one; so \<^verbatim>\<open>start <= end\<close> holds of a record
  exactly when it holds of these values of its source, and the tool does not enforce it.
\<close>

theorem whisper_words_order:
  "ending (whisper_main env args) = Exit 0 \<Longrightarrow>
     \<exists>mdl result kvs recs.
       load_model env (w_model args) (w_device args) = Inr mdl \<and>
       transcribe env mdl (w_audio args) (w_language args) True False = Inr result \<and>
       stdout (whisper_main env args) = [PDict kvs] \<and>
       map_of kvs ''words'' = Some (PList recs) \<and>
       list_all2 (\<lambda>wd rec. timing_copied wd rec \<and> start_le_end rec = start_le_end wd)
         (source_words result) recs"
proof -
  assume "ending (whisper_main env args) = Exit 0"
  from whisper_main_success [OF this] obtain ct out where
    t: "whisper_try env args = (ct, Inr out)"
    and o: "stdout (whisper_main env args) = [out]" by blast
  from whisper_try_success [OF t] obtain mdl result words where
    l: "load_model env (w_model args) (w_device args) = Inr mdl"
    and r: "transcribe env mdl (w_audio args) (w_language args) True False = Inr result"
    and e: "extract_words whisper_word result = Inr words"
    and w: "whisper_output args result words = Inr out" by blast
  from whisper_output_Inr [OF w] obtain kvs where
    k: "out = PDict kvs" and m: "map_of kvs ''words'' = Some (PList words)" by auto
  from extract_words_Inr [OF e]
  have "list_all2 (\<lambda>wd rec. timing_copied wd rec \<and> start_le_end rec = start_le_end wd)
         (source_words result) words"
  proof (rule list_all2_mono)
    fix wd rec
    assume "whisper_word wd = Inr rec"
    then have "timing_copied wd rec"
      using whisper_word_Inr by (simp add: whisper_flattened_def)
    then show "timing_copied wd rec \<and> start_le_end rec = start_le_end wd"
      by (simp add: timing_copied_le)
  qed
  with l r o k m show ?thesis by blast
qed

text \<open>
  The run of \<open>whisper_demo_env\<close>. Its second word has a \<^verbatim>\<open>start\<close> of 5.0 and no
  \<^verbatim>\<open>end\<close>: the record emitted for it has the end 0, before its start.
\<close>

lemma whisper_demo_run:
  "whisper_main whisper_demo_env whisper_demo_args =
     \<lparr>stdout = [PDict [(''text'', PStr ''a b''), (''language'', PStr ''yi''),
                       (''duration'', PNone),
                       (''segments'', get_or ''segments'' PNone whisper_demo_result),
                       (''words'', PList whisper_demo_words)]],
      stderr = [],
      calls = [ImportWhisper, LoadModel ''base'' ''cpu'',
               Transcribe () ''a.wav'' ''yi'' True False],
      ending = Exit 0\<rparr>"
  by (simp add: whisper_main_def whisper_try_def whisper_demo_env_def whisper_demo_args_def
      whisper_demo_extract whisper_output_def)
     (simp add: whisper_demo_result_def get_or_def field_def)

theorem whisper_start_after_end:
  "ending (whisper_main whisper_demo_env whisper_demo_args) = Exit 0 \<and>
   map (field ''words'') (stdout (whisper_main whisper_demo_env whisper_demo_args)) =
     [Some (PList whisper_demo_words)] \<and>
   \<not> list_all start_le_end whisper_demo_words"
proof -
  have "\<not> list_all start_le_end whisper_demo_words"
    by (simp add: whisper_demo_words_def start_le_end_def get_or_def field_def num_val_def)
  then show ?thesis
    by (simp add: whisper_demo_run field_def)
qed

theorem whisper_words_order_witness:
  "ending (whisper_main whisper_demo_env whisper_demo_args) = Exit 0 \<and>
   (\<exists>kvs recs.
      stdout (whisper_main whisper_demo_env whisper_demo_args) = [PDict kvs] \<and>
      map_of kvs ''words'' = Some (PList recs) \<and>
      list_all2 (\<lambda>wd rec. timing_copied wd rec \<and> start_le_end rec = start_le_end wd)
        (source_words whisper_demo_result) recs)"
proof -
  have e: "ending (whisper_main whisper_demo_env whisper_demo_args) = Exit 0"
    by (simp add: whisper_demo_run)
  have l: "load_model whisper_demo_env (w_model whisper_demo_args) (w_device whisper_demo_args)
             = Inr ()"
    by (simp add: whisper_demo_env_def)
  have t: "transcribe whisper_demo_env () (w_audio whisper_demo_args)
             (w_language whisper_demo_args) True False = Inr whisper_demo_result"
    by (simp add: whisper_demo_env_def)
  from whisper_words_order [OF e] l t e show ?thesis
    by auto
qed

end
